theory Spec2Isabelle
  imports Complex_Main "HOL-Library.AList"
begin

section \<open>Text, errors and numbers\<close>

text \<open>
  A Python string is a sequence of Unicode code points, so text is modelled as a list of
  code points.  The literals of \<^verbatim>\<open>app.py\<close> are given code point by code point,
  with an English gloss.
\<close>

type_synonym ustr = "nat list"

datatype error = ValueError | KeyError | TypeError | ZeroDivisionError

definition bind :: "error + 'a \<Rightarrow> ('a \<Rightarrow> error + 'b) \<Rightarrow> error + 'b" where
  "bind m k = (case m of Inl e \<Rightarrow> Inl e | Inr x \<Rightarrow> k x)"

fun sequence :: "(error + 'a) list \<Rightarrow> error + 'a list" where
  "sequence [] = Inr []"
| "sequence (m # ms) = bind m (\<lambda>x. bind (sequence ms) (\<lambda>xs. Inr (x # xs)))"

text \<open>
  Floating-point values are modelled by reals.  \<^verbatim>\<open>ndarray.round\<close> rounds half to even:
  with one decimal it rounds ten times the value to an integer and divides by ten.
  \<^verbatim>\<open>astype(int)\<close> truncates towards zero into a 64-bit signed integer; a value outside
  that range has no defined conversion, and the least 64-bit integer that the x86-64 build
  yields stands for it.  Python's \<^verbatim>\<open>/\<close> raises on a zero divisor.
\<close>

definition rint :: "real \<Rightarrow> int" where
  "rint x = (let f = \<lfloor>x\<rfloor>; d = x - of_int f
             in if d < 1 / 2 then f else if 1 / 2 < d then f + 1
                else if even f then f else f + 1)"

definition round0 :: "real \<Rightarrow> real" where
  "round0 x = of_int (rint x)"

definition round1 :: "real \<Rightarrow> real" where
  "round1 x = of_int (rint (x * 10)) / 10"

definition astype_int :: "real \<Rightarrow> int" where
  "astype_int x =
     (let n = (if 0 \<le> x then \<lfloor>x\<rfloor> else \<lceil>x\<rceil>)
      in if - (2 ^ 63) \<le> n \<and> n < 2 ^ 63 then n else - (2 ^ 63))"

definition py_div :: "real \<Rightarrow> real \<Rightarrow> error + real" where
  "py_div a b = (if b = 0 then Inl ZeroDivisionError else Inr (a / b))"

section \<open>Data frames\<close>

text \<open>
  A column is a typed series.  Dates are instants in seconds; \<open>MonthDays\<close> is the column of
  their \<^verbatim>\<open>'%m/%d'\<close> renderings and \<open>Clocks\<close> the column of \<^verbatim>\<open>'%H:%M'\<close> renderings in the
  provider's time zone, both kept symbolic.  A frame is the ordered list of its named columns.
\<close>

datatype column =
    Stamps "int list"
  | MonthDays "int list"
  | Clocks "int list"
  | Floats "real list"
  | Ints "int list"
  | Texts "ustr list"

fun col_len :: "column \<Rightarrow> nat" where
  "col_len (Stamps xs) = length xs"
| "col_len (MonthDays xs) = length xs"
| "col_len (Clocks xs) = length xs"
| "col_len (Floats xs) = length xs"
| "col_len (Ints xs) = length xs"
| "col_len (Texts xs) = length xs"

type_synonym frame = "(ustr \<times> column) list"

definition columns :: "frame \<Rightarrow> ustr list" where
  "columns f = map fst f"

definition nrows :: "frame \<Rightarrow> nat" where
  "nrows f = (case f of [] \<Rightarrow> 0 | (k, c) # rest \<Rightarrow> col_len c)"

definition DataFrame :: "(ustr \<times> column) list \<Rightarrow> error + frame" where
  \<comment> \<open>the constructor from a dictionary of arrays: all arrays must have one length\<close>
  "DataFrame d = (if list_all (\<lambda>(k, c). col_len c = nrows d) d then Inr d else Inl ValueError)"

definition getcol :: "frame \<Rightarrow> ustr \<Rightarrow> error + column" where
  "getcol f k = (case map_of f k of None \<Rightarrow> Inl KeyError | Some c \<Rightarrow> Inr c)"

definition floats :: "frame \<Rightarrow> ustr \<Rightarrow> error + real list" where
  "floats f k = bind (getcol f k) (\<lambda>c. case c of Floats xs \<Rightarrow> Inr xs | _ \<Rightarrow> Inl TypeError)"

fun select :: "frame \<Rightarrow> ustr list \<Rightarrow> error + frame" where
  \<comment> \<open>\<^verbatim>\<open>df[[k1, ..., kn]]\<close>\<close>
  "select f [] = Inr []"
| "select f (k # ks) = bind (getcol f k) (\<lambda>c. bind (select f ks) (\<lambda>g. Inr ((k, c) # g)))"

definition drop_ignore :: "frame \<Rightarrow> ustr list \<Rightarrow> frame" where
  \<comment> \<open>\<^verbatim>\<open>df.drop(columns=ks, errors='ignore')\<close>\<close>
  "drop_ignore f ks = filter (\<lambda>(k, c). k \<notin> set ks) f"

definition drop_raise :: "frame \<Rightarrow> ustr list \<Rightarrow> error + frame" where
  \<comment> \<open>\<^verbatim>\<open>df.drop(columns=ks)\<close>: a missing label raises\<close>
  "drop_raise f ks = (if set ks \<subseteq> set (columns f) then Inr (drop_ignore f ks) else Inl KeyError)"

definition setcol :: "frame \<Rightarrow> ustr \<Rightarrow> column \<Rightarrow> error + frame" where
  \<comment> \<open>\<^verbatim>\<open>df[k] = series\<close>: replaces the column in place, or appends a new one\<close>
  "setcol f k c = (if f = [] \<or> col_len c = nrows f then Inr (AList.update k c f) else Inl ValueError)"

definition setcol_scalar :: "frame \<Rightarrow> ustr \<Rightarrow> ustr \<Rightarrow> frame" where
  \<comment> \<open>\<^verbatim>\<open>df[k] = 'text'\<close>: the text is broadcast to every row\<close>
  "setcol_scalar f k v = AList.update k (Texts (replicate (nrows f) v)) f"

definition loc_set :: "frame \<Rightarrow> bool list \<Rightarrow> ustr \<Rightarrow> ustr \<Rightarrow> error + frame" where
  \<comment> \<open>\<^verbatim>\<open>df.loc[mask, k] = 'text'\<close>\<close>
  "loc_set f msk k v =
     bind (getcol f k) (\<lambda>c. case c of
        Texts ts \<Rightarrow>
          if length msk = length ts
          then Inr (AList.update k (Texts (map2 (\<lambda>m t. if m then v else t) msk ts)) f)
          else Inl ValueError
      | _ \<Rightarrow> Inl TypeError)"

definition rename :: "frame \<Rightarrow> (ustr \<times> ustr) list \<Rightarrow> frame" where
  \<comment> \<open>\<^verbatim>\<open>df.rename(columns=mapping)\<close>\<close>
  "rename f m = map (\<lambda>(k, c). (case map_of m k of None \<Rightarrow> k | Some k' \<Rightarrow> k', c)) f"

definition strftime_md :: "frame \<Rightarrow> ustr \<Rightarrow> error + frame" where
  \<comment> \<open>\<^verbatim>\<open>df[k] = df[k].dt.strftime('%m/%d')\<close>\<close>
  "strftime_md f k =
     bind (getcol f k) (\<lambda>c. case c of
        Stamps ds \<Rightarrow> Inr (AList.update k (MonthDays ds) f)
      | _ \<Rightarrow> Inl TypeError)"

text \<open>Element-wise comparisons and Boolean operations on series.\<close>

definition vlt :: "real list \<Rightarrow> real \<Rightarrow> bool list" where
  "vlt xs c = map (\<lambda>x. x < c) xs"

definition vle :: "real list \<Rightarrow> real \<Rightarrow> bool list" where
  "vle xs c = map (\<lambda>x. x \<le> c) xs"

definition vgt :: "real list \<Rightarrow> real \<Rightarrow> bool list" where
  "vgt xs c = map (\<lambda>x. c < x) xs"

definition vge :: "real list \<Rightarrow> real \<Rightarrow> bool list" where
  "vge xs c = map (\<lambda>x. c \<le> x) xs"

definition veq :: "real list \<Rightarrow> real \<Rightarrow> bool list" where
  "veq xs c = map (\<lambda>x. x = c) xs"

definition vand :: "bool list \<Rightarrow> bool list \<Rightarrow> bool list" where
  "vand xs ys = map2 (\<and>) xs ys"

definition vnot :: "bool list \<Rightarrow> bool list" where
  "vnot xs = map Not xs"

section \<open>Column names and labels of \<^verbatim>\<open>get_weather_data\<close>\<close>

definition col_date :: ustr where
  \<comment> \<open>the date column\<close>
  "col_date = [0x65E5, 0x4ED8]"

definition col_tmax :: ustr where
  \<comment> \<open>maximum temperature\<close>
  "col_tmax = [0x6700, 0x9AD8, 0x6C17, 0x6E29, 0x20, 0x28, 0xB0, 0x43, 0x29]"

definition col_tmin :: ustr where
  \<comment> \<open>minimum temperature\<close>
  "col_tmin = [0x6700, 0x4F4E, 0x6C17, 0x6E29, 0x20, 0x28, 0xB0, 0x43, 0x29]"

definition col_rain :: ustr where
  \<comment> \<open>rain sum\<close>
  "col_rain = [0x5B89, 0x5B9A, 0x3057, 0x305F, 0x964D, 0x96E8, 0x91CF, 0x20, 0x28, 0x6D, 0x6D, 0x29]"

definition col_showers :: ustr where
  \<comment> \<open>showers sum\<close>
  "col_showers = [0x306B, 0x308F, 0x304B, 0x96E8, 0x91CF, 0x20, 0x28, 0x6D, 0x6D, 0x29]"

definition col_daylight :: ustr where
  \<comment> \<open>daylight hours\<close>
  "col_daylight = [0x663C, 0x5149, 0x6642, 0x9593, 0x20, 0x28, 0x6642, 0x9593, 0x29]"

definition col_sunshine :: ustr where
  \<comment> \<open>sunshine hours\<close>
  "col_sunshine = [0x65E5, 0x7167, 0x6642, 0x9593, 0x20, 0x28, 0x6642, 0x9593, 0x29]"

definition col_sunrise :: ustr where
  \<comment> \<open>sunrise time\<close>
  "col_sunrise = [0x65E5, 0x306E, 0x51FA, 0x6642, 0x523B]"

definition col_sunset :: ustr where
  \<comment> \<open>sunset time\<close>
  "col_sunset = [0x65E5, 0x306E, 0x5165, 0x308A, 0x6642, 0x523B]"

definition col_prob :: ustr where
  \<comment> \<open>maximum precipitation probability\<close>
  "col_prob = [0x964D, 0x6C34, 0x78BA, 0x7387, 0x20, 0x6700, 0x5927, 0x20, 0x28, 0x25, 0x29]"

definition col_precip :: ustr where
  \<comment> \<open>precipitation sum\<close>
  "col_precip = [0x964D, 0x6C34, 0x5408, 0x8A08, 0x20, 0x28, 0x6D, 0x6D, 0x29]"

definition col_ratio :: ustr where
  \<comment> \<open>sunshine ratio\<close>
  "col_ratio = [0x65E5, 0x7167, 0x7387]"

definition col_forecast :: ustr where
  \<comment> \<open>weather forecast (the label column)\<close>
  "col_forecast = [0x5929, 0x6C17, 0x4E88, 0x5831]"

definition col_precip_out :: ustr where
  \<comment> \<open>precipitation amount (the renamed precipitation sum)\<close>
  "col_precip_out = [0x964D, 0x6C34, 0x91CF, 0x20, 0x28, 0x6D, 0x6D, 0x29]"

definition txt_clear :: ustr where
  \<comment> \<open>sunny\<close>
  "txt_clear = [0x1F31E, 0x20, 0x6674, 0x308C]"

definition txt_rain_warning :: ustr where
  \<comment> \<open>rain warning\<close>
  "txt_rain_warning = [0x2614, 0x20, 0x96E8, 0x6CE8, 0x610F]"

definition txt_occasional_rain :: ustr where
  \<comment> \<open>cloudy with occasional rain\<close>
  "txt_occasional_rain = [0x2601, 0xFE0F, 0x20, 0x6642, 0x3005, 0x96E8]"

definition txt_partly_cloudy :: ustr where
  \<comment> \<open>sunny, partly cloudy\<close>
  "txt_partly_cloudy = [0x1F324, 0xFE0F, 0x20, 0x6674, 0x308C, 0x6642, 0x3005, 0x66C7, 0x308A]"

definition txt_cloudy :: ustr where
  \<comment> \<open>cloudy\<close>
  "txt_cloudy = [0x2601, 0xFE0F, 0x20, 0x66C7, 0x308A]"

section \<open>The forecast pipeline: \<^verbatim>\<open>get_weather_data\<close>\<close>

text \<open>
  The provider's answer: the date axis (the instants generated from the reported start, end
  and interval, time zone removed) and the ten daily series, named as the local variables
  that receive them.
\<close>

record daily_response =
  date_range :: "int list"
  daily_temperature_2m_max :: "real list"
  daily_temperature_2m_min :: "real list"
  daily_rain_sum :: "real list"
  daily_showers_sum :: "real list"
  daily_daylight_duration :: "real list"
  daily_sunshine_duration :: "real list"
  daily_sunrise :: "int list"
  daily_sunset :: "int list"
  daily_precipitation_probability_max :: "real list"
  daily_precipitation_sum :: "real list"

definition daily_data :: "daily_response \<Rightarrow> (ustr \<times> column) list" where
  "daily_data r =
     (let daily_daylight_hours = map (\<lambda>x. x / 3600) (daily_daylight_duration r);
          daily_sunshine_hours = map (\<lambda>x. x / 3600) (daily_sunshine_duration r)
      in [(col_date, Stamps (date_range r)),
          (col_tmax, Floats (map round1 (daily_temperature_2m_max r))),
          (col_tmin, Floats (map round1 (daily_temperature_2m_min r))),
          (col_rain, Floats (map round1 (daily_rain_sum r))),
          (col_showers, Floats (map round1 (daily_showers_sum r))),
          (col_daylight, Floats (map round1 daily_daylight_hours)),
          (col_sunshine, Floats (map round1 daily_sunshine_hours)),
          (col_sunrise, Clocks (daily_sunrise r)),
          (col_sunset, Clocks (daily_sunset r)),
          (col_prob, Ints (map (\<lambda>x. astype_int (round0 x)) (daily_precipitation_probability_max r))),
          (col_precip, Floats (map round1 (daily_precipitation_sum r)))])"

definition columns_to_drop_from_daily :: "ustr list" where
  "columns_to_drop_from_daily = [col_rain, col_showers, col_daylight, col_sunshine]"

definition sunshine_ratio :: "frame \<Rightarrow> error + real list" where
  \<comment> \<open>the row-wise \<^verbatim>\<open>apply\<close> of the guarded quotient, times 100\<close>
  "sunshine_ratio custom_df =
     bind (floats custom_df col_sunshine) (\<lambda>sunshine.
     bind (floats custom_df col_daylight) (\<lambda>daylight.
     bind (sequence (map2 (\<lambda>s d. if 0 < d then py_div s d else Inr 0) sunshine daylight)) (\<lambda>q.
     Inr (map (\<lambda>x. x * 100) q))))"

definition classify :: "frame \<Rightarrow> error + frame" where
  \<comment> \<open>the default label, then the four masked assignments in source order\<close>
  "classify custom_df =
     (let df0 = setcol_scalar custom_df col_forecast txt_clear in
      bind (floats df0 col_ratio) (\<lambda>ratio.
      bind (floats df0 col_precip) (\<lambda>precip.
      let is_low_sunshine = vlt ratio 50;
          is_partly_cloudy = vand (vge ratio 50) (vle ratio 90);
          is_no_precip = veq precip 0;
          is_rain_warning = vge precip 5
      in bind (loc_set df0 is_rain_warning col_forecast txt_rain_warning) (\<lambda>df1.
      let is_light_precip = vand (vgt precip 0) (vlt precip 5);
          is_occasional_rain = vand (vand is_low_sunshine is_light_precip) (vnot is_rain_warning)
      in bind (loc_set df1 is_occasional_rain col_forecast txt_occasional_rain) (\<lambda>df2.
      let is_partly_cloudy_final = vand is_no_precip is_partly_cloudy
      in bind (loc_set df2
                 (vand (vand is_partly_cloudy_final (vnot is_rain_warning)) (vnot is_occasional_rain))
                 col_forecast txt_partly_cloudy) (\<lambda>df3.
      let is_cloudy = vand is_no_precip is_low_sunshine
      in loc_set df3
           (vand (vand (vand is_cloudy (vnot is_rain_warning)) (vnot is_occasional_rain))
              (vnot is_partly_cloudy_final))
           col_forecast txt_cloudy))))))"

definition custom_analysis :: "frame \<Rightarrow> error + frame" where
  \<comment> \<open>the custom analysis frame, from the selection of four columns to the final column order\<close>
  "custom_analysis daily_dataframe =
     bind (select daily_dataframe [col_date, col_precip, col_daylight, col_sunshine]) (\<lambda>df0.
     bind (sunshine_ratio df0) (\<lambda>ratio.
     bind (setcol df0 col_ratio (Floats ratio)) (\<lambda>df1.
     bind (classify df1) (\<lambda>df2.
     bind (strftime_md df2 col_date) (\<lambda>df3.
     let df4 = rename df3 [(col_precip, col_precip_out), (col_daylight, col_daylight),
                           (col_sunshine, col_sunshine)]
     in bind (drop_raise df4 [col_ratio]) (\<lambda>df5.
        select df5 [col_date, col_precip_out, col_daylight, col_sunshine, col_forecast]))))))"

record chart_data =
  labels :: "int list"
  t_max :: "real list"
  t_min :: "real list"
  precipitation_sum :: "real list"

record weather_data =
  location_name :: ustr
  daily_table :: frame
  chart_data_json :: chart_data
  custom_analysis_table :: frame

text \<open>
  The result of \<^verbatim>\<open>get_weather_data\<close> for a provider answer.  The tables are kept as frames
  (their HTML rendering is the library's), \<open>labels\<close> holds the instants whose \<^verbatim>\<open>'%m/%d'\<close>
  renderings are the chart labels, and the texts formatted from the coordinates, the elevation
  and the time zone are left out.
\<close>

definition get_weather_data :: "ustr \<Rightarrow> daily_response \<Rightarrow> error + weather_data" where
  "get_weather_data name r =
     bind (DataFrame (daily_data r)) (\<lambda>daily_dataframe.
     let daily_display_df = drop_ignore daily_dataframe columns_to_drop_from_daily in
     bind (custom_analysis daily_dataframe) (\<lambda>custom_df.
     Inr \<lparr>location_name = name,
          daily_table = daily_display_df,
          chart_data_json =
            \<lparr>labels = date_range r,
             t_max = map round1 (daily_temperature_2m_max r),
             t_min = map round1 (daily_temperature_2m_min r),
             precipitation_sum = map round1 (daily_precipitation_sum r)\<rparr>,
          custom_analysis_table = custom_df\<rparr>))"

subsection \<open>The classifier as the specification words it\<close>

datatype label = CLEAR | RAIN_WARNING | OCCASIONAL_RAIN | PARTLY_CLOUDY | CLOUDY

fun label_text :: "label \<Rightarrow> ustr" where
  "label_text CLEAR = txt_clear"
| "label_text RAIN_WARNING = txt_rain_warning"
| "label_text OCCASIONAL_RAIN = txt_occasional_rain"
| "label_text PARTLY_CLOUDY = txt_partly_cloudy"
| "label_text CLOUDY = txt_cloudy"

definition spec_label :: "real \<Rightarrow> real \<Rightarrow> label" where
  \<comment> \<open>the first-match priority chain over (precip_sum_mm, sunshine_ratio_pct)\<close>
  "spec_label precip_sum_mm sunshine_ratio_pct =
     (if 5 \<le> precip_sum_mm then RAIN_WARNING
      else if sunshine_ratio_pct < 50 \<and> 0 < precip_sum_mm \<and> precip_sum_mm < 5 then OCCASIONAL_RAIN
      else if precip_sum_mm = 0 \<and> 50 \<le> sunshine_ratio_pct \<and> sunshine_ratio_pct \<le> 90 then PARTLY_CLOUDY
      else if precip_sum_mm = 0 \<and> sunshine_ratio_pct < 50 then CLOUDY
      else CLEAR)"

definition spec_ratio :: "real \<Rightarrow> real \<Rightarrow> real" where
  \<comment> \<open>sunshine_ratio_pct from sunshine_hours and daylight_hours\<close>
  "spec_ratio sunshine_hours daylight_hours =
     (if daylight_hours \<le> 0 then 0 else 100 * sunshine_hours / daylight_hours)"

definition nearest_even :: "real \<Rightarrow> int \<Rightarrow> bool" where
  \<comment> \<open>\<open>n\<close> is the integer nearest to \<open>x\<close>, the even one of the two when \<open>x\<close> lies halfway\<close>
  "nearest_even x n \<longleftrightarrow>
     \<bar>real_of_int n - x\<bar> \<le> 1 / 2 \<and> (\<bar>real_of_int n - x\<bar> = 1 / 2 \<longrightarrow> even n)"

definition ratio_of :: "daily_response \<Rightarrow> real list" where
  \<comment> \<open>the ratio of every day of an answer, from the hours as the builder rounds them\<close>
  "ratio_of r =
     map2 spec_ratio
       (map round1 (map (\<lambda>x. x / 3600) (daily_sunshine_duration r)))
       (map round1 (map (\<lambda>x. x / 3600) (daily_daylight_duration r)))"

definition aligned :: "daily_response \<Rightarrow> bool" where
  \<comment> \<open>the ten series and the date axis have one length\<close>
  "aligned r \<longleftrightarrow>
     (let n = length (date_range r)
      in length (daily_temperature_2m_max r) = n \<and> length (daily_temperature_2m_min r) = n \<and>
         length (daily_rain_sum r) = n \<and> length (daily_showers_sum r) = n \<and>
         length (daily_daylight_duration r) = n \<and> length (daily_sunshine_duration r) = n \<and>
         length (daily_sunrise r) = n \<and> length (daily_sunset r) = n \<and>
         length (daily_precipitation_probability_max r) = n \<and>
         length (daily_precipitation_sum r) = n)"

text \<open>A one-day answer with no daylight, no sunshine and no precipitation.\<close>

definition example_day :: daily_response where
  "example_day =
     \<lparr>date_range = [0],
      daily_temperature_2m_max = [20], daily_temperature_2m_min = [10],
      daily_rain_sum = [0], daily_showers_sum = [0],
      daily_daylight_duration = [0], daily_sunshine_duration = [0],
      daily_sunrise = [0], daily_sunset = [0],
      daily_precipitation_probability_max = [0], daily_precipitation_sum = [0]\<rparr>"

section \<open>The coordinate table: \<^verbatim>\<open>load_prefecture_coords\<close>\<close>

definition DEFAULT_KEY :: ustr where
  \<comment> \<open>data load error (using Tokyo)\<close>
  "DEFAULT_KEY = [0x30C7, 0x30FC, 0x30BF, 0x8AAD, 0x307F, 0x8FBC, 0x307F, 0x30A8, 0x30E9, 0x30FC, 0x767A, 0x751F, 0xFF08, 0x6771, 0x4EAC, 0x3092, 0x4F7F, 0x7528, 0xFF09]"

definition txt_kanto :: ustr where
  \<comment> \<open>Kanto\<close>
  "txt_kanto = [0x95A2, 0x6771]"

definition txt_error :: ustr where
  \<comment> \<open>error\<close>
  "txt_error = [0x30A8, 0x30E9, 0x30FC]"

definition txt_other :: ustr where
  \<comment> \<open>other\<close>
  "txt_other = [0x305D, 0x306E, 0x4ED6]"

definition txt_tokyo_to :: ustr where
  \<comment> \<open>Tokyo prefecture\<close>
  "txt_tokyo_to = [0x6771, 0x4EAC, 0x90FD]"

definition txt_tokyo_display :: ustr where
  \<comment> \<open>Tokyo government office (Shinjuku)\<close>
  "txt_tokyo_display = [0x6771, 0x4EAC, 0x90FD, 0x5E81, 0xFF08, 0x65B0, 0x5BBF, 0x533A, 0xFF09]"

definition txt_hokkaido :: ustr where
  \<comment> \<open>Hokkaido\<close>
  "txt_hokkaido = [0x5317, 0x6D77, 0x9053]"

definition txt_hokkaido_display :: ustr where
  \<comment> \<open>Hokkaido government office (Sapporo)\<close>
  "txt_hokkaido_display = [0x5317, 0x6D77, 0x9053, 0x5E81, 0xFF08, 0x672D, 0x5E4C, 0x5E02, 0xFF09]"

text \<open>
  A row of the file as the reader delivers it: \<open>None\<close> is a missing cell.  The cells are the
  prefecture, the prefectural capital, the region, the north latitude and the east longitude.
\<close>

record csv_row =
  prefecture :: "ustr option"
  capital :: "ustr option"
  region_cell :: "ustr option"
  lat_cell :: "ustr option"
  lon_cell :: "ustr option"

datatype csv_source =
    NoFile \<comment> \<open>the path does not exist\<close>
  | Unreadable \<comment> \<open>the reader raises, or a required column is absent\<close>
  | Rows "csv_row list"

record entry =
  display_name :: ustr
  latitude :: real
  longitude :: real
  region :: ustr

datatype fval = NaN | Fin real

text \<open>
  The conversion of a text to a float is the library's and is a parameter \<open>conv\<close>: \<open>None\<close>
  stands for the \<^verbatim>\<open>ValueError\<close> raised on a text that is not a number.  A missing cell
  prints as \<^verbatim>\<open>nan\<close> and converts to NaN; in any other cell the ring marks \<open>U+2218\<close> are
  removed before the conversion.  Infinite values are not modelled.
\<close>

definition to_float :: "(ustr \<Rightarrow> fval option) \<Rightarrow> ustr option \<Rightarrow> error + fval" where
  "to_float conv cell =
     (case cell of
        None \<Rightarrow> Inr NaN
      | Some s \<Rightarrow>
          (case conv (filter (\<lambda>c. c \<noteq> 0x2218) s) of
             None \<Rightarrow> Inl ValueError
           | Some v \<Rightarrow> Inr v))"

definition region_name :: "csv_row \<Rightarrow> ustr" where
  \<comment> \<open>a missing region is filled with the empty text, and an empty region reads as "other"\<close>
  "region_name row =
     (let filled = (case region_cell row of None \<Rightarrow> [] | Some s \<Rightarrow> s)
      in if filled \<noteq> [] then filled else txt_other)"

definition display_name_of :: "ustr \<Rightarrow> ustr \<Rightarrow> ustr" where
  "display_name_of prefecture_name capital_name =
     (if prefecture_name = txt_tokyo_to then txt_tokyo_display
      else if prefecture_name = txt_hokkaido then txt_hokkaido_display
      else prefecture_name @ [0xFF08] @ capital_name @ [0xFF09])"

fun row_entry :: "csv_row \<times> fval \<times> fval \<Rightarrow> entry option" where
  \<comment> \<open>\<^verbatim>\<open>dropna\<close> on the four required columns, then the body of the loop\<close>
  "row_entry (row, Fin lat, Fin lon) =
     (case (prefecture row, capital row) of
        (Some prefecture_name, Some capital_name) \<Rightarrow>
          Some \<lparr>display_name = display_name_of prefecture_name capital_name,
                latitude = lat, longitude = lon, region = region_name row\<rparr>
      | _ \<Rightarrow> None)"
| "row_entry (row, _, _) = None"

definition read_rows :: "(ustr \<Rightarrow> fval option) \<Rightarrow> csv_row list \<Rightarrow> error + entry list" where
  \<comment> \<open>the body of the \<^verbatim>\<open>try\<close> block: both columns are converted before any row is used\<close>
  "read_rows conv rows =
     bind (sequence (map (\<lambda>row. to_float conv (lat_cell row)) rows)) (\<lambda>lats.
     bind (sequence (map (\<lambda>row. to_float conv (lon_cell row)) rows)) (\<lambda>lons.
     Inr (List.map_filter row_entry (zip rows (zip lats lons)))))"

definition load_prefecture_coords :: "(ustr \<Rightarrow> fval option) \<Rightarrow> csv_source \<Rightarrow> entry list" where
  \<comment> \<open>the value of \<^verbatim>\<open>PREFECTURE_DATA_LIST\<close> after the call\<close>
  "load_prefecture_coords conv src =
     (case src of
        NoFile \<Rightarrow>
          [\<lparr>display_name = DEFAULT_KEY, latitude = 35.689, longitude = 139.692,
            region = txt_kanto\<rparr>]
      | Unreadable \<Rightarrow>
          [\<lparr>display_name = DEFAULT_KEY, latitude = 35.689, longitude = 139.692,
            region = txt_error\<rparr>]
      | Rows rows \<Rightarrow>
          (case read_rows conv rows of
             Inl e \<Rightarrow>
               [\<lparr>display_name = DEFAULT_KEY, latitude = 35.689, longitude = 139.692,
                 region = txt_error\<rparr>]
           | Inr table \<Rightarrow> table))"

text \<open>
  A conversion for unsigned plain decimal literals (digits with an optional fractional part),
  on which it agrees with the library; used for concrete tables.
\<close>

definition is_digit :: "nat \<Rightarrow> bool" where
  "is_digit c \<longleftrightarrow> 0x30 \<le> c \<and> c \<le> 0x39"

definition digits_val :: "nat list \<Rightarrow> nat" where
  "digits_val ds = foldl (\<lambda>a c. 10 * a + (c - 0x30)) 0 ds"

definition decimal_conv :: "ustr \<Rightarrow> fval option" where
  "decimal_conv s =
     (let ip = takeWhile is_digit s; rest = dropWhile is_digit s
      in case rest of
           [] \<Rightarrow> if ip = [] then None else Some (Fin (real (digits_val ip)))
         | c # fp \<Rightarrow>
             if c = 0x2E \<and> list_all is_digit fp \<and> (ip \<noteq> [] \<or> fp \<noteq> [])
             then Some (Fin (real (digits_val ip) + real (digits_val fp) / 10 ^ length fp))
             else None)"

subsection \<open>Notions used in the statements about the loader\<close>

definition convertible :: "(ustr \<Rightarrow> fval option) \<Rightarrow> ustr option \<Rightarrow> bool" where
  \<comment> \<open>the cell is missing, or its text is read as a number\<close>
  "convertible conv cell = (case to_float conv cell of Inl e \<Rightarrow> False | Inr v \<Rightarrow> True)"

definition cell_value :: "(ustr \<Rightarrow> fval option) \<Rightarrow> ustr option \<Rightarrow> fval" where
  "cell_value conv cell = (case to_float conv cell of Inl e \<Rightarrow> NaN | Inr v \<Rightarrow> v)"

definition fallback_entry :: entry where
  \<comment> \<open>the entry that replaces the table when the \<^verbatim>\<open>try\<close> block raises\<close>
  "fallback_entry =
     \<lparr>display_name = DEFAULT_KEY, latitude = 35.689, longitude = 139.692, region = txt_error\<rparr>"

text \<open>
  Two rows of a file: Aomori (capital Aomori, region Tohoku, 40.82 and 140.74 with the ring
  mark) and Okinawa (capital Naha, no region, 26.21 and 127.68), and the entries made of them.
\<close>

definition row_aomori :: csv_row where
  "row_aomori =
     \<lparr>prefecture = Some [0x9752, 0x68EE, 0x770C],
      capital = Some [0x9752, 0x68EE, 0x5E02],
      region_cell = Some [0x6771, 0x5317],
      lat_cell = Some [0x34, 0x30, 0x2E, 0x38, 0x32, 0x2218],
      lon_cell = Some [0x31, 0x34, 0x30, 0x2E, 0x37, 0x34, 0x2218]\<rparr>"

definition row_okinawa :: csv_row where
  "row_okinawa =
     \<lparr>prefecture = Some [0x6C96, 0x7E04, 0x770C],
      capital = Some [0x90A3, 0x8987, 0x5E02],
      region_cell = None,
      lat_cell = Some [0x32, 0x36, 0x2E, 0x32, 0x31],
      lon_cell = Some [0x31, 0x32, 0x37, 0x2E, 0x36, 0x38]\<rparr>"

definition entry_aomori :: entry where
  "entry_aomori =
     \<lparr>display_name = [0x9752, 0x68EE, 0x770C, 0xFF08, 0x9752, 0x68EE, 0x5E02, 0xFF09],
      latitude = 40.82, longitude = 140.74, region = [0x6771, 0x5317]\<rparr>"

definition entry_okinawa :: entry where
  "entry_okinawa =
     \<lparr>display_name = [0x6C96, 0x7E04, 0x770C, 0xFF08, 0x90A3, 0x8987, 0x5E02, 0xFF09],
      latitude = 26.21, longitude = 127.68, region = txt_other\<rparr>"

section \<open>The request handler: \<^verbatim>\<open>index\<close>\<close>

datatype http_method = GET | POST

record request =
  request_method :: http_method
  prefecture_select :: "ustr option" \<comment> \<open>the form field, \<open>None\<close> when absent\<close>

record page =
  selected_data :: entry
  prefecture_data :: "entry list"
  selected_location :: ustr

datatype response = ServerError500 | Rendered page

text \<open>
  The handler up to the selection: it returns the coordinate table it leaves behind and its
  answer.  The forecast for the selected entry is then fetched and rendered with
  \<^verbatim>\<open>get_weather_data\<close>.  \<^verbatim>\<open>sorted\<close> is stable, also with \<^verbatim>\<open>reverse=True\<close>.
\<close>

definition index ::
  "(ustr \<Rightarrow> fval option) \<Rightarrow> csv_source \<Rightarrow> entry list \<Rightarrow> request \<Rightarrow> entry list \<times> response" where
  "index conv src PREFECTURE_DATA_LIST req =
     (let table = (if PREFECTURE_DATA_LIST = [] then load_prefecture_coords conv src
                   else PREFECTURE_DATA_LIST)
      in case table of
           [] \<Rightarrow> (table, ServerError500)
         | default_data # _ \<Rightarrow>
             let sorted_list = sort_key (\<lambda>x. - latitude x) table;
                 valid_keys = map display_name table;
                 location_key =
                   (if request_method req = POST
                    then (case prefecture_select req of
                            None \<Rightarrow> display_name default_data
                          | Some k \<Rightarrow> if k \<notin> set valid_keys then display_name default_data else k)
                    else display_name default_data);
                 selected = (case find (\<lambda>item. display_name item = location_key) table of
                               Some item \<Rightarrow> item
                             | None \<Rightarrow> default_data)
             in (table, Rendered \<lparr>selected_data = selected, prefecture_data = sorted_list,
                                  selected_location = display_name selected\<rparr>))"

section \<open>Auxiliary facts\<close>

subsection \<open>Results and rounding\<close>

lemma bind_Inr: "bind (Inr x) k = k x"
  by (simp add: bind_def)

lemma rint_cases:
  "rint x = \<lfloor>x\<rfloor> \<and> x - of_int \<lfloor>x\<rfloor> \<le> 1 / 2 \<or>
   rint x = \<lfloor>x\<rfloor> + 1 \<and> 1 / 2 \<le> x - of_int \<lfloor>x\<rfloor>"
  by (auto simp: rint_def Let_def)

lemma rint_near: "\<bar>real_of_int (rint x) - x\<bar> \<le> 1 / 2"
  using rint_cases[of x] by (auto simp: abs_le_iff)

lemma rint_lower: "real_of_int a \<le> x \<Longrightarrow> a \<le> rint x"
proof -
  assume "real_of_int a \<le> x"
  then have "a \<le> \<lfloor>x\<rfloor>" by (simp add: le_floor_iff)
  then show ?thesis using rint_cases[of x] by auto
qed

lemma rint_upper:
  assumes "x \<le> real_of_int b"
  shows "rint x \<le> b"
proof (cases "x = real_of_int b")
  case True
  then show ?thesis by (simp add: rint_def)
next
  case False
  with assms have "x < real_of_int b" by simp
  then have "\<lfloor>x\<rfloor> < b" by (simp add: floor_less_iff)
  then show ?thesis using rint_cases[of x] by auto
qed

lemma rint_nearest_even: "nearest_even x (rint x)"
proof -
  have "\<bar>real_of_int (rint x) - x\<bar> = 1 / 2 \<Longrightarrow> even (rint x)"
  proof -
    assume h: "\<bar>real_of_int (rint x) - x\<bar> = 1 / 2"
    have f: "real_of_int \<lfloor>x\<rfloor> \<le> x" "x < real_of_int \<lfloor>x\<rfloor> + 1"
      by linarith+
    have d: "x - real_of_int \<lfloor>x\<rfloor> = 1 / 2"
    proof -
      consider "rint x = \<lfloor>x\<rfloor>" | "rint x = \<lfloor>x\<rfloor> + 1"
        using rint_cases[of x] by blast
      then show ?thesis
      proof cases
        case 1
        with h have "\<bar>real_of_int \<lfloor>x\<rfloor> - x\<bar> = 1 / 2" by simp
        with f show ?thesis by linarith
      next
        case 2
        with h have "\<bar>real_of_int \<lfloor>x\<rfloor> + 1 - x\<bar> = 1 / 2" by simp
        with f show ?thesis by linarith
      qed
    qed
    then show "even (rint x)"
      by (simp add: rint_def Let_def)
  qed
  then show ?thesis
    unfolding nearest_even_def using rint_near[of x] by blast
qed

lemma nearest_even_unique:
  assumes "nearest_even x n" "nearest_even x m"
  shows "n = m"
proof (rule ccontr)
  assume ne: "n \<noteq> m"
  have n: "\<bar>real_of_int n - x\<bar> \<le> 1 / 2" and m: "\<bar>real_of_int m - x\<bar> \<le> 1 / 2"
    using assms by (simp_all add: nearest_even_def)
  have "\<bar>real_of_int n - real_of_int m\<bar> \<le> 1" using n m by linarith
  then have "\<bar>n - m\<bar> \<le> 1" by linarith
  with ne have d: "n = m + 1 \<or> m = n + 1" by linarith
  then have "\<bar>real_of_int n - x\<bar> = 1 / 2 \<and> \<bar>real_of_int m - x\<bar> = 1 / 2"
    using n m by (auto simp: abs_if split: if_splits)
  then have "even n \<and> even m"
    using assms by (simp add: nearest_even_def)
  with d show False by auto
qed

lemma prob_int:
  assumes "- (2 ^ 63) \<le> x" "x \<le> 2 ^ 63 - 1"
  shows "astype_int (round0 x) = rint x"
proof -
  have "real_of_int (- (2 ^ 63)) \<le> x" "x \<le> real_of_int (2 ^ 63 - 1)"
    using assms by simp_all
  then have "- (2 ^ 63) \<le> rint x" "rint x \<le> 2 ^ 63 - 1"
    using rint_lower rint_upper by blast+
  then show ?thesis
    by (simp add: round0_def astype_int_def Let_def)
qed

lemma rint_0: "rint 0 = 0"
  by (simp add: rint_def)

lemma round1_0: "round1 0 = 0"
  by (simp add: round1_def rint_0)

subsection \<open>Frames\<close>

lemmas col_defs = col_date_def col_tmax_def col_tmin_def col_rain_def col_showers_def
  col_daylight_def col_sunshine_def col_sunrise_def col_sunset_def col_prob_def col_precip_def
  col_ratio_def col_forecast_def col_precip_out_def

lemmas txt_defs = txt_clear_def txt_rain_warning_def txt_occasional_rain_def
  txt_partly_cloudy_def txt_cloudy_def

lemmas vec_defs = vand_def vnot_def vlt_def vle_def vgt_def vge_def veq_def

lemma vec_len:
  "length (vlt xs c) = length xs" "length (vle xs c) = length xs"
  "length (vgt xs c) = length xs" "length (vge xs c) = length xs"
  "length (veq xs c) = length xs" "length (vnot bs) = length bs"
  "length (vand bs cs) = min (length bs) (length cs)"
  by (simp_all add: vec_defs)

lemma forecast_neq: "col_ratio \<noteq> col_forecast" "col_precip \<noteq> col_forecast"
  by (simp_all add: col_defs)

lemma floats_Some: "map_of f k = Some (Floats xs) \<Longrightarrow> floats f k = Inr xs"
  by (simp add: floats_def getcol_def bind_def)

lemma loc_set_Texts:
  "map_of f k = Some (Texts ts) \<Longrightarrow> length m = length ts \<Longrightarrow>
   loc_set f m k v = Inr (AList.update k (Texts (map2 (\<lambda>b t. if b then v else t) m ts)) f)"
  by (simp add: loc_set_def getcol_def bind_def)

subsection \<open>The masked assignments compute the priority chain\<close>

lemma label_pointwise:
  assumes "length p = n" "length q = n"
  shows "map2 (\<lambda>m t. if m then txt_cloudy else t)
      (vand (vand (vand (vand (veq p 0) (vlt q 50)) (vnot (vge p 5)))
          (vnot (vand (vand (vlt q 50) (vand (vgt p 0) (vlt p 5))) (vnot (vge p 5)))))
        (vnot (vand (veq p 0) (vand (vge q 50) (vle q 90)))))
     (map2 (\<lambda>m t. if m then txt_partly_cloudy else t)
       (vand (vand (vand (veq p 0) (vand (vge q 50) (vle q 90))) (vnot (vge p 5)))
          (vnot (vand (vand (vlt q 50) (vand (vgt p 0) (vlt p 5))) (vnot (vge p 5)))))
     (map2 (\<lambda>m t. if m then txt_occasional_rain else t)
        (vand (vand (vlt q 50) (vand (vgt p 0) (vlt p 5))) (vnot (vge p 5)))
     (map2 (\<lambda>m t. if m then txt_rain_warning else t) (vge p 5) (replicate n txt_clear))))
   = map2 (\<lambda>x y. label_text (spec_label x y)) p q"
  using assms
  by (intro nth_equalityI) (auto simp: vec_defs spec_label_def)

lemma classify_eq:
  assumes p: "map_of f col_precip = Some (Floats p)"
    and q: "map_of f col_ratio = Some (Floats q)"
    and lp: "length p = nrows f" and lq: "length q = nrows f"
  shows "classify f =
    Inr (AList.update col_forecast (Texts (map2 (\<lambda>x y. label_text (spec_label x y)) p q)) f)"
proof -
  define n where "n = nrows f"
  define df0 where "df0 = setcol_scalar f col_forecast txt_clear"
  have fq: "floats df0 col_ratio = Inr q" and fp: "floats df0 col_precip = Inr p"
    using p q
    by (auto intro!: floats_Some simp: df0_def setcol_scalar_def update_conv' forecast_neq)
  have t0: "map_of df0 col_forecast = Some (Texts (replicate n txt_clear))"
    by (simp add: df0_def setcol_scalar_def update_conv' n_def)
  have upd: "\<And>ts. AList.update col_forecast (Texts ts) df0 = AList.update col_forecast (Texts ts) f"
    by (simp add: df0_def setcol_scalar_def)
  have len: "length p = n" "length q = n"
    using lp lq by (simp_all add: n_def)
  show ?thesis
    unfolding classify_def Let_def df0_def[symmetric] fq fp bind_Inr
    apply (subst loc_set_Texts[OF t0])
     apply (simp add: vec_len len)
    apply (simp only: bind_Inr upd)
    apply (subst loc_set_Texts)
      apply (simp add: update_conv')
     apply (simp add: vec_len len)
    apply (simp only: bind_Inr update_last)
    apply (subst loc_set_Texts)
      apply (simp add: update_conv')
     apply (simp add: vec_len len)
    apply (simp only: bind_Inr update_last)
    apply (subst loc_set_Texts)
      apply (simp add: update_conv')
     apply (simp add: vec_len len)
    apply (simp only: update_last label_pointwise[OF len])
    done
qed

subsection \<open>The guarded quotient\<close>

lemma sequence_guard:
  "sequence (map (\<lambda>(s, d). if 0 < d then py_div s d else Inr 0) zs)
     = Inr (map (\<lambda>(s, d). if 0 < d then s / d else 0) zs)"
  by (induction zs) (auto simp: bind_def py_div_def)

lemma sunshine_ratio_eq:
  assumes "map_of f col_sunshine = Some (Floats s)" "map_of f col_daylight = Some (Floats d)"
  shows "sunshine_ratio f = Inr (map2 spec_ratio s d)"
  using assms
  by (auto simp: sunshine_ratio_def floats_Some bind_Inr sequence_guard spec_ratio_def)

subsection \<open>The pipeline in closed form\<close>

lemma DataFrame_daily_data: "aligned r \<Longrightarrow> DataFrame (daily_data r) = Inr (daily_data r)"
  by (simp add: DataFrame_def daily_data_def aligned_def Let_def nrows_def)

lemma select_custom:
  "select (daily_data r) [col_date, col_precip, col_daylight, col_sunshine] =
     Inr [(col_date, Stamps (date_range r)),
          (col_precip, Floats (map round1 (daily_precipitation_sum r))),
          (col_daylight, Floats (map round1 (map (\<lambda>x. x / 3600) (daily_daylight_duration r)))),
          (col_sunshine, Floats (map round1 (map (\<lambda>x. x / 3600) (daily_sunshine_duration r))))]"
  by (simp add: daily_data_def Let_def getcol_def bind_def col_defs)

lemma ratio_custom:
  "bind (select (daily_data r) [col_date, col_precip, col_daylight, col_sunshine]) sunshine_ratio
     = Inr (ratio_of r)"
  unfolding select_custom bind_Inr ratio_of_def
  by (rule sunshine_ratio_eq) (simp_all add: col_defs)

lemma custom_analysis_eq:
  assumes "aligned r"
  shows "custom_analysis (daily_data r) =
     Inr [(col_date, MonthDays (date_range r)),
          (col_precip_out, Floats (map round1 (daily_precipitation_sum r))),
          (col_daylight, Floats (map round1 (map (\<lambda>x. x / 3600) (daily_daylight_duration r)))),
          (col_sunshine, Floats (map round1 (map (\<lambda>x. x / 3600) (daily_sunshine_duration r)))),
          (col_forecast, Texts (map2 (\<lambda>x y. label_text (spec_label x y))
              (map round1 (daily_precipitation_sum r)) (ratio_of r)))]"
proof -
  let ?df0 = "[(col_date, Stamps (date_range r)),
          (col_precip, Floats (map round1 (daily_precipitation_sum r))),
          (col_daylight, Floats (map round1 (map (\<lambda>x. x / 3600) (daily_daylight_duration r)))),
          (col_sunshine, Floats (map round1 (map (\<lambda>x. x / 3600) (daily_sunshine_duration r))))]"
  have len: "length (daily_precipitation_sum r) = length (date_range r)"
    "length (daily_daylight_duration r) = length (date_range r)"
    "length (daily_sunshine_duration r) = length (date_range r)"
    using assms by (simp_all add: aligned_def Let_def)
  have lr: "length (ratio_of r) = length (date_range r)"
    by (simp add: ratio_of_def len)
  have r: "sunshine_ratio ?df0 = Inr (ratio_of r)"
    using ratio_custom[of r] by (simp only: select_custom bind_Inr)
  let ?df1 = "?df0 @ [(col_ratio, Floats (ratio_of r))]"
  have s: "setcol ?df0 col_ratio (Floats (ratio_of r)) = Inr ?df1"
    by (simp add: setcol_def nrows_def lr col_defs)
  have c: "classify ?df1 =
      Inr (?df1 @ [(col_forecast, Texts (map2 (\<lambda>x y. label_text (spec_label x y))
              (map round1 (daily_precipitation_sum r)) (ratio_of r)))])"
    by (subst classify_eq[where p = "map round1 (daily_precipitation_sum r)" and q = "ratio_of r"])
       (simp_all add: nrows_def len lr col_defs)
  show ?thesis
    unfolding custom_analysis_def select_custom bind_Inr r s c
    by (simp add: strftime_md_def getcol_def bind_def rename_def drop_raise_def drop_ignore_def
          columns_def Let_def col_defs)
qed

lemma get_weather_data_eq:
  assumes "aligned r"
  shows "get_weather_data name r =
     Inr \<lparr>location_name = name,
          daily_table =
            [(col_date, Stamps (date_range r)),
             (col_tmax, Floats (map round1 (daily_temperature_2m_max r))),
             (col_tmin, Floats (map round1 (daily_temperature_2m_min r))),
             (col_sunrise, Clocks (daily_sunrise r)),
             (col_sunset, Clocks (daily_sunset r)),
             (col_prob, Ints (map (\<lambda>x. astype_int (round0 x))
                (daily_precipitation_probability_max r))),
             (col_precip, Floats (map round1 (daily_precipitation_sum r)))],
          chart_data_json =
            \<lparr>labels = date_range r,
             t_max = map round1 (daily_temperature_2m_max r),
             t_min = map round1 (daily_temperature_2m_min r),
             precipitation_sum = map round1 (daily_precipitation_sum r)\<rparr>,
          custom_analysis_table =
            [(col_date, MonthDays (date_range r)),
             (col_precip_out, Floats (map round1 (daily_precipitation_sum r))),
             (col_daylight, Floats (map round1 (map (\<lambda>x. x / 3600) (daily_daylight_duration r)))),
             (col_sunshine, Floats (map round1 (map (\<lambda>x. x / 3600) (daily_sunshine_duration r)))),
             (col_forecast, Texts (map2 (\<lambda>x y. label_text (spec_label x y))
                (map round1 (daily_precipitation_sum r)) (ratio_of r)))]\<rparr>"
proof -
  have d: "drop_ignore (daily_data r) columns_to_drop_from_daily =
            [(col_date, Stamps (date_range r)),
             (col_tmax, Floats (map round1 (daily_temperature_2m_max r))),
             (col_tmin, Floats (map round1 (daily_temperature_2m_min r))),
             (col_sunrise, Clocks (daily_sunrise r)),
             (col_sunset, Clocks (daily_sunset r)),
             (col_prob, Ints (map (\<lambda>x. astype_int (round0 x))
                (daily_precipitation_probability_max r))),
             (col_precip, Floats (map round1 (daily_precipitation_sum r)))]"
    by (simp add: drop_ignore_def daily_data_def columns_to_drop_from_daily_def Let_def col_defs)
  show ?thesis
    unfolding get_weather_data_def DataFrame_daily_data[OF assms] bind_Inr Let_def
      custom_analysis_eq[OF assms] d ..
qed

lemma get_weather_data_misaligned: "\<not> aligned r \<Longrightarrow> get_weather_data name r = Inl ValueError"
  by (auto simp: get_weather_data_def DataFrame_def daily_data_def aligned_def Let_def nrows_def
      bind_def)

lemma aligned_example_day: "aligned example_day"
  by (simp add: aligned_def example_day_def)

section \<open>The weather classifier\<close>

lemma inj_label_text: "inj label_text"
proof (rule injI)
  fix a b assume "label_text a = label_text b"
  then show "a = b"
    by (cases a; cases b) (simp_all add: txt_defs)
qed

text \<open>
  Claim C1.  On every frame that holds the precipitation sums \<open>p\<close> and the sunshine ratios
  \<open>q\<close> of its rows, the classifier succeeds and sets the label column to the text of
  \<open>spec_label\<close> of each day's pair, the first-match chain RAIN_WARNING, OCCASIONAL_RAIN,
  PARTLY_CLOUDY, CLOUDY, CLEAR; no other column changes, so the label of a day is a function
  of its precipitation sum and its ratio alone.  The five texts are pairwise different, so
  each day carries exactly one label.  Scenarios A to E, as five days of one frame, receive
  RAIN_WARNING, OCCASIONAL_RAIN, PARTLY_CLOUDY, CLOUDY and CLEAR.
\<close>

theorem classifier_priority_chain:
  "(map_of f col_precip = Some (Floats p) \<and> map_of f col_ratio = Some (Floats q) \<and>
    length p = nrows f \<and> length q = nrows f \<longrightarrow>
      classify f =
        Inr (AList.update col_forecast
               (Texts (map2 (\<lambda>x y. label_text (spec_label x y)) p q)) f)) \<and>
   inj label_text \<and>
   classify [(col_precip, Floats [6, 2, 0, 0, 0]), (col_ratio, Floats [80, 30, 70, 20, 95])] =
     Inr [(col_precip, Floats [6, 2, 0, 0, 0]), (col_ratio, Floats [80, 30, 70, 20, 95]),
          (col_forecast, Texts [label_text RAIN_WARNING, label_text OCCASIONAL_RAIN,
             label_text PARTLY_CLOUDY, label_text CLOUDY, label_text CLEAR])]"
proof (intro conjI impI)
  assume "map_of f col_precip = Some (Floats p) \<and> map_of f col_ratio = Some (Floats q) \<and>
    length p = nrows f \<and> length q = nrows f"
  then show "classify f =
        Inr (AList.update col_forecast
               (Texts (map2 (\<lambda>x y. label_text (spec_label x y)) p q)) f)"
    by (simp add: classify_eq)
next
  show "inj label_text" by (rule inj_label_text)
next
  let ?f = "[(col_precip, Floats [6, 2, 0, 0, 0]), (col_ratio, Floats [80, 30, 70, 20, 95])]"
  have "classify ?f = Inr (AList.update col_forecast
               (Texts (map2 (\<lambda>x y. label_text (spec_label x y)) [6, 2, 0, 0, 0] [80, 30, 70, 20, 95])) ?f)"
    by (rule classify_eq) (simp_all add: nrows_def col_defs)
  also have "\<dots> = Inr [(col_precip, Floats [6, 2, 0, 0, 0]), (col_ratio, Floats [80, 30, 70, 20, 95]),
          (col_forecast, Texts [label_text RAIN_WARNING, label_text OCCASIONAL_RAIN,
             label_text PARTLY_CLOUDY, label_text CLOUDY, label_text CLEAR])]"
    by (simp add: spec_label_def col_defs)
  finally show "classify ?f = Inr [(col_precip, Floats [6, 2, 0, 0, 0]), (col_ratio, Floats [80, 30, 70, 20, 95]),
          (col_forecast, Texts [label_text RAIN_WARNING, label_text OCCASIONAL_RAIN,
             label_text PARTLY_CLOUDY, label_text CLOUDY, label_text CLEAR])]" .
qed

text \<open>
  The chain at a frame of two days: 7 mm with a ratio of 10 is a rain warning (the first rule
  wins although the sunshine is low), 0 mm with a ratio of 10 is cloudy.
\<close>

theorem classifier_priority_chain_witness:
  "classify [(col_date, Stamps [0, 86400]), (col_precip, Floats [7, 0]),
             (col_ratio, Floats [10, 10])] =
     Inr [(col_date, Stamps [0, 86400]), (col_precip, Floats [7, 0]),
          (col_ratio, Floats [10, 10]),
          (col_forecast, Texts [txt_rain_warning, txt_cloudy])]"
  using classifier_priority_chain
    [of "[(col_date, Stamps [0, 86400]), (col_precip, Floats [7, 0]), (col_ratio, Floats [10, 10])]"
        "[7, 0]" "[10, 10]"]
  by (simp add: nrows_def col_defs spec_label_def)

text \<open>
  Claim C8.  A day whose precipitation sum is negative keeps the default label, the text of
  CLEAR, whatever its sunshine ratio is: the classifier succeeds on every frame holding both
  columns, and each such row of the label column is \<open>txt_clear\<close>.
\<close>

theorem negative_precip_is_clear:
  assumes "map_of f col_precip = Some (Floats p)" "map_of f col_ratio = Some (Floats q)"
    "length p = nrows f" "length q = nrows f"
  shows "\<exists>ls. classify f = Inr (AList.update col_forecast (Texts ls) f) \<and>
           length ls = nrows f \<and> (\<forall>i<nrows f. p ! i < 0 \<longrightarrow> ls ! i = txt_clear)"
proof (intro exI conjI allI impI)
  show "classify f = Inr (AList.update col_forecast
               (Texts (map2 (\<lambda>x y. label_text (spec_label x y)) p q)) f)"
    using assms by (rule classify_eq)
  show "length (map2 (\<lambda>x y. label_text (spec_label x y)) p q) = nrows f"
    using assms by simp
  fix i assume "i < nrows f" "p ! i < 0"
  then show "map2 (\<lambda>x y. label_text (spec_label x y)) p q ! i = txt_clear"
    using assms by (simp add: spec_label_def)
qed

text \<open>Two days with negative sums, one with little and one with much sunshine.\<close>

theorem negative_precip_is_clear_witness:
  "\<exists>ls. classify [(col_precip, Floats [-1, -3]), (col_ratio, Floats [10, 70])] =
           Inr [(col_precip, Floats [-1, -3]), (col_ratio, Floats [10, 70]),
                (col_forecast, Texts ls)] \<and>
         ls ! 0 = txt_clear \<and> ls ! 1 = txt_clear"
proof -
  let ?f = "[(col_precip, Floats [-1, -3]), (col_ratio, Floats [10, 70])]"
  have "\<exists>ls. classify ?f = Inr (AList.update col_forecast (Texts ls) ?f) \<and>
           length ls = nrows ?f \<and> (\<forall>i<nrows ?f. [-1, -3 :: real] ! i < 0 \<longrightarrow> ls ! i = txt_clear)"
    by (rule negative_precip_is_clear[where q = "[10, 70]"]) (simp_all add: nrows_def col_defs)
  then obtain ls where c: "classify ?f = Inr (AList.update col_forecast (Texts ls) ?f)"
    and a: "\<forall>i<nrows ?f. [-1, -3 :: real] ! i < 0 \<longrightarrow> ls ! i = txt_clear"
    by blast
  have n: "nrows ?f = 2" by (simp add: nrows_def)
  from a n have "ls ! 0 = txt_clear" by (simp add: nrows_def)
  moreover from a have "ls ! 1 = txt_clear" by (simp add: nrows_def)
  moreover from c have "classify ?f = Inr (?f @ [(col_forecast, Texts ls)])"
    by (simp add: col_defs)
  ultimately show ?thesis by auto
qed

text \<open>
  Claim C9.  A day with a precipitation sum strictly between 0 and 5 and a sunshine ratio of
  at least 50 keeps the default label, the text of CLEAR.
\<close>

theorem light_rain_with_sunshine_is_clear:
  assumes "map_of f col_precip = Some (Floats p)" "map_of f col_ratio = Some (Floats q)"
    "length p = nrows f" "length q = nrows f"
  shows "\<exists>ls. classify f = Inr (AList.update col_forecast (Texts ls) f) \<and>
           length ls = nrows f \<and>
           (\<forall>i<nrows f. 0 < p ! i \<and> p ! i < 5 \<and> 50 \<le> q ! i \<longrightarrow> ls ! i = txt_clear)"
proof (intro exI conjI allI impI)
  show "classify f = Inr (AList.update col_forecast
               (Texts (map2 (\<lambda>x y. label_text (spec_label x y)) p q)) f)"
    using assms by (rule classify_eq)
  show "length (map2 (\<lambda>x y. label_text (spec_label x y)) p q) = nrows f"
    using assms by simp
  fix i assume "i < nrows f" "0 < p ! i \<and> p ! i < 5 \<and> 50 \<le> q ! i"
  then show "map2 (\<lambda>x y. label_text (spec_label x y)) p q ! i = txt_clear"
    using assms by (simp add: spec_label_def)
qed

text \<open>Two days of light rain, at the ratios 50 and 100.\<close>

theorem light_rain_with_sunshine_is_clear_witness:
  "\<exists>ls. classify [(col_precip, Floats [2, 4.9]), (col_ratio, Floats [50, 100])] =
           Inr [(col_precip, Floats [2, 4.9]), (col_ratio, Floats [50, 100]),
                (col_forecast, Texts ls)] \<and>
         ls ! 0 = txt_clear \<and> ls ! 1 = txt_clear"
proof -
  let ?f = "[(col_precip, Floats [2, 4.9]), (col_ratio, Floats [50, 100])]"
  have "\<exists>ls. classify ?f = Inr (AList.update col_forecast (Texts ls) ?f) \<and>
           length ls = nrows ?f \<and>
           (\<forall>i<nrows ?f. 0 < [2, 4.9 :: real] ! i \<and> [2, 4.9 :: real] ! i < 5 \<and>
               50 \<le> [50, 100 :: real] ! i \<longrightarrow> ls ! i = txt_clear)"
    by (rule light_rain_with_sunshine_is_clear) (simp_all add: nrows_def col_defs)
  then obtain ls where c: "classify ?f = Inr (AList.update col_forecast (Texts ls) ?f)"
    and a: "\<forall>i<nrows ?f. 0 < [2, 4.9 :: real] ! i \<and> [2, 4.9 :: real] ! i < 5 \<and>
               50 \<le> [50, 100 :: real] ! i \<longrightarrow> ls ! i = txt_clear"
    by blast
  from a have "ls ! 0 = txt_clear" by (simp add: nrows_def)
  moreover from a have "ls ! 1 = txt_clear" by (simp add: nrows_def)
  moreover from c have "classify ?f = Inr (?f @ [(col_forecast, Texts ls)])"
    by (simp add: col_defs)
  ultimately show ?thesis by auto
qed

section \<open>The sunshine ratio\<close>

text \<open>
  Claim C2.  On every frame holding the sunshine hours \<open>s\<close> and the daylight hours \<open>d\<close>,
  the ratio computation returns a value and never an error: the ratio of a day is 0 when
  its daylight hours are at most 0 and 100 times the sunshine hours over the daylight hours
  otherwise (\<open>spec_ratio\<close>), the quotient being taken only behind the guard.  Scenario F: a
  day with no daylight, no sunshine and no precipitation has the ratio 0 and is labelled
  CLOUDY by the whole pipeline.
\<close>

theorem sunshine_ratio_guarded:
  "(map_of f col_sunshine = Some (Floats s) \<and> map_of f col_daylight = Some (Floats d) \<longrightarrow>
      sunshine_ratio f = Inr (map2 spec_ratio s d)) \<and>
   bind (select (daily_data example_day) [col_date, col_precip, col_daylight, col_sunshine])
     sunshine_ratio = Inr [0] \<and>
   bind (get_weather_data name example_day) (\<lambda>w. getcol (custom_analysis_table w) col_forecast)
     = Inr (Texts [label_text CLOUDY])"
proof (intro conjI impI)
  assume "map_of f col_sunshine = Some (Floats s) \<and> map_of f col_daylight = Some (Floats d)"
  then show "sunshine_ratio f = Inr (map2 spec_ratio s d)"
    by (simp add: sunshine_ratio_eq)
next
  have r: "ratio_of example_day = [0]"
    by (simp add: ratio_of_def example_day_def round1_0 spec_ratio_def)
  show "bind (select (daily_data example_day) [col_date, col_precip, col_daylight, col_sunshine])
     sunshine_ratio = Inr [0]"
    by (simp only: ratio_custom r)
  have p: "map round1 (daily_precipitation_sum example_day) = [0]"
    by (simp add: example_day_def round1_0)
  show "bind (get_weather_data name example_day) (\<lambda>w. getcol (custom_analysis_table w) col_forecast)
     = Inr (Texts [label_text CLOUDY])"
    unfolding get_weather_data_eq[OF aligned_example_day] bind_Inr r p
    by (simp add: getcol_def spec_label_def col_defs)
qed

text \<open>Three days: half of ten hours of daylight, no daylight, negative daylight.\<close>

theorem sunshine_ratio_guarded_witness:
  "sunshine_ratio [(col_daylight, Floats [10, 0, -1]), (col_sunshine, Floats [5, 3, 2])]
     = Inr [50, 0, 0]"
  using sunshine_ratio_guarded
    [of "[(col_daylight, Floats [10, 0, -1]), (col_sunshine, Floats [5, 3, 2])]"
        "[5, 3, 2]" "[10, 0, -1]"]
  by (simp add: col_defs spec_ratio_def)

text \<open>
  Claim C3, as stated, fails: nothing clamps the ratio.  An answer with 14400 s of daylight
  and 18000 s of sunshine is built into 4 and 5 hours, and the ratio is 125.
\<close>

theorem sunshine_ratio_exceeds_100:
  "bind (select (daily_data (example_day\<lparr>daily_daylight_duration := [14400],
                                          daily_sunshine_duration := [18000]\<rparr>))
           [col_date, col_precip, col_daylight, col_sunshine])
     sunshine_ratio = Inr [125]"
proof -
  have a: "round1 4 = 4" and b: "round1 5 = 5"
    by (simp_all add: round1_def rint_def Let_def)
  show ?thesis
    unfolding ratio_custom
    by (simp add: ratio_of_def example_day_def a b spec_ratio_def)
qed

text \<open>
  Claim C3, amended.  The ratio of a day is exactly 0 when its daylight hours are at most 0,
  and it lies in the closed interval from 0 to 100 when its daylight hours are positive and
  its sunshine hours lie between 0 and its daylight hours.
\<close>

theorem sunshine_ratio_bounds:
  assumes "map_of f col_sunshine = Some (Floats s)" "map_of f col_daylight = Some (Floats d)"
    "length s = length d"
  shows "\<exists>q. sunshine_ratio f = Inr q \<and> length q = length d \<and>
           (\<forall>i<length d. (d ! i \<le> 0 \<longrightarrow> q ! i = 0) \<and>
              (0 < d ! i \<and> 0 \<le> s ! i \<and> s ! i \<le> d ! i \<longrightarrow> 0 \<le> q ! i \<and> q ! i \<le> 100))"
proof (intro exI conjI allI impI)
  show "sunshine_ratio f = Inr (map2 spec_ratio s d)"
    using assms by (simp add: sunshine_ratio_eq)
  show "length (map2 spec_ratio s d) = length d"
    using assms by simp
next
  fix i assume "i < length d" "d ! i \<le> 0"
  then show "map2 spec_ratio s d ! i = 0"
    using assms by (simp add: spec_ratio_def)
next
  fix i assume i: "i < length d" and h: "0 < d ! i \<and> 0 \<le> s ! i \<and> s ! i \<le> d ! i"
  have e: "map2 spec_ratio s d ! i = 100 * s ! i / d ! i"
    using i h assms by (simp add: spec_ratio_def)
  show "0 \<le> map2 spec_ratio s d ! i"
    unfolding e using h by simp
  have "s ! i / d ! i \<le> 1"
    using h by (simp add: divide_le_eq_1)
  then show "map2 spec_ratio s d ! i \<le> 100"
    unfolding e by simp
qed

text \<open>Six of eight hours, and a day without daylight.\<close>

theorem sunshine_ratio_bounds_witness:
  "\<exists>q. sunshine_ratio [(col_daylight, Floats [8, 0]), (col_sunshine, Floats [6, 0])] = Inr q \<and>
       length q = 2 \<and> q ! 1 = 0 \<and> 0 \<le> q ! 0 \<and> q ! 0 \<le> 100"
proof -
  let ?f = "[(col_daylight, Floats [8, 0]), (col_sunshine, Floats [6, 0])]"
  let ?s = "[6, 0 :: real]" and ?d = "[8, 0 :: real]"
  have "\<exists>q. sunshine_ratio ?f = Inr q \<and> length q = length ?d \<and>
           (\<forall>i<length ?d. (?d ! i \<le> 0 \<longrightarrow> q ! i = 0) \<and>
              (0 < ?d ! i \<and> 0 \<le> ?s ! i \<and> ?s ! i \<le> ?d ! i \<longrightarrow> 0 \<le> q ! i \<and> q ! i \<le> 100))"
    by (rule sunshine_ratio_bounds) (simp_all add: col_defs)
  then obtain q where q: "sunshine_ratio ?f = Inr q" "length q = length ?d"
    and a: "\<forall>i<length ?d. (?d ! i \<le> 0 \<longrightarrow> q ! i = 0) \<and>
              (0 < ?d ! i \<and> 0 \<le> ?s ! i \<and> ?s ! i \<le> ?d ! i \<longrightarrow> 0 \<le> q ! i \<and> q ! i \<le> 100)"
    by blast
  from a have "q ! 1 = 0" by simp
  moreover from a have "0 \<le> q ! 0 \<and> q ! 0 \<le> 100" by simp
  ultimately show ?thesis using q by auto
qed

section \<open>The precipitation probability\<close>

text \<open>
  Claim C6, as stated, fails: the builder rounds and converts but does not clamp, so a raw
  probability of 150 is shown as 150.
\<close>

theorem precip_probability_unclamped:
  "bind (get_weather_data [] (example_day\<lparr>daily_precipitation_probability_max := [150]\<rparr>))
     (\<lambda>w. getcol (daily_table w) col_prob) = Inr (Ints [150])"
proof -
  have a: "aligned (example_day\<lparr>daily_precipitation_probability_max := [150]\<rparr>)"
    by (simp add: aligned_def example_day_def)
  have "astype_int (round0 150) = rint 150"
    by (rule prob_int) simp_all
  also have "rint 150 = 150"
    by (simp add: rint_def)
  finally have b: "astype_int (round0 150) = 150" .
  show ?thesis
    unfolding get_weather_data_eq[OF a] bind_Inr
    by (simp add: getcol_def col_defs b example_day_def)
qed

text \<open>
  Claim C6, amended.  For every aligned answer the probability column of the daily table
  holds one integer for each day.  For a raw probability within the range of the 64-bit
  integers this integer is the one nearest to the raw probability, the even one of the two
  when the raw probability lies halfway between two integers (\<open>nearest_even\<close>, which no other
  integer satisfies), and it lies between 0 and 100 whenever the raw probability does.
  Nothing clamps a raw probability outside 0 to 100.
\<close>

theorem precip_probability_rounded:
  assumes "aligned r"
  shows "\<exists>w ps. get_weather_data name r = Inr w \<and>
           map_of (daily_table w) col_prob = Some (Ints ps) \<and>
           length ps = length (daily_precipitation_probability_max r) \<and>
           (\<forall>i<length ps.
              (- (2 ^ 63) \<le> daily_precipitation_probability_max r ! i \<and>
               daily_precipitation_probability_max r ! i \<le> 2 ^ 63 - 1 \<longrightarrow>
                 nearest_even (daily_precipitation_probability_max r ! i) (ps ! i) \<and>
                 (\<forall>m. nearest_even (daily_precipitation_probability_max r ! i) m
                    \<longrightarrow> m = ps ! i)) \<and>
              (0 \<le> daily_precipitation_probability_max r ! i \<and>
               daily_precipitation_probability_max r ! i \<le> 100 \<longrightarrow>
                 0 \<le> ps ! i \<and> ps ! i \<le> 100))"
proof -
  let ?raw = "daily_precipitation_probability_max r"
  let ?ps = "map (\<lambda>x. astype_int (round0 x)) ?raw"
  obtain w where w: "get_weather_data name r = Inr w"
    and t: "map_of (daily_table w) col_prob = Some (Ints ?ps)"
    unfolding get_weather_data_eq[OF assms] by (simp add: col_defs)
  have "\<forall>i<length ?ps.
              (- (2 ^ 63) \<le> ?raw ! i \<and> ?raw ! i \<le> 2 ^ 63 - 1 \<longrightarrow>
                 nearest_even (?raw ! i) (?ps ! i) \<and>
                 (\<forall>m. nearest_even (?raw ! i) m \<longrightarrow> m = ?ps ! i)) \<and>
              (0 \<le> ?raw ! i \<and> ?raw ! i \<le> 100 \<longrightarrow> 0 \<le> ?ps ! i \<and> ?ps ! i \<le> 100)"
  proof (intro allI impI conjI)
    fix i assume i: "i < length ?ps"
    assume h: "- (2 ^ 63) \<le> ?raw ! i \<and> ?raw ! i \<le> 2 ^ 63 - 1"
    from i h have e: "?ps ! i = rint (?raw ! i)"
      by (simp add: prob_int)
    show "nearest_even (?raw ! i) (?ps ! i)"
      unfolding e by (rule rint_nearest_even)
    fix m assume "nearest_even (?raw ! i) m"
    then show "m = ?ps ! i"
      unfolding e by (rule nearest_even_unique) (rule rint_nearest_even)
  next
    fix i assume i: "i < length ?ps"
    assume h: "0 \<le> ?raw ! i \<and> ?raw ! i \<le> 100"
    then have "- (2 ^ 63) \<le> ?raw ! i" "?raw ! i \<le> 2 ^ 63 - 1"
      by simp_all
    with i have e: "?ps ! i = rint (?raw ! i)"
      by (simp add: prob_int)
    from h have "real_of_int 0 \<le> ?raw ! i" "?raw ! i \<le> real_of_int 100"
      by simp_all
    then show "0 \<le> ?ps ! i" "?ps ! i \<le> 100"
      unfolding e using rint_lower rint_upper by blast+
  qed
  with w t show ?thesis
    by (intro exI[of _ w] exI[of _ ?ps]) simp
qed

text \<open>A raw probability of 62.5, halfway between 62 and 63, is shown as 62.\<close>

theorem precip_probability_rounded_witness:
  "\<exists>w ps. get_weather_data [] (example_day\<lparr>daily_precipitation_probability_max := [62.5]\<rparr>)
              = Inr w \<and>
           map_of (daily_table w) col_prob = Some (Ints ps) \<and> length ps = 1 \<and>
           ps ! 0 = 62 \<and> 0 \<le> ps ! 0 \<and> ps ! 0 \<le> 100"
proof -
  let ?r = "example_day\<lparr>daily_precipitation_probability_max := [62.5]\<rparr>"
  let ?raw = "daily_precipitation_probability_max ?r"
  have a: "aligned ?r"
    by (simp add: aligned_def example_day_def)
  obtain w ps where w: "get_weather_data [] ?r = Inr w"
    "map_of (daily_table w) col_prob = Some (Ints ps)"
    "length ps = length ?raw"
    and b: "\<forall>i<length ps.
              (- (2 ^ 63) \<le> ?raw ! i \<and> ?raw ! i \<le> 2 ^ 63 - 1 \<longrightarrow>
                 nearest_even (?raw ! i) (ps ! i) \<and>
                 (\<forall>m. nearest_even (?raw ! i) m \<longrightarrow> m = ps ! i)) \<and>
              (0 \<le> ?raw ! i \<and> ?raw ! i \<le> 100 \<longrightarrow> 0 \<le> ps ! i \<and> ps ! i \<le> 100)"
    using precip_probability_rounded[OF a, of "[]"] by blast
  have l: "length ps = 1" using w(3) by simp
  have raw: "?raw ! 0 = 62.5" by simp
  have "nearest_even 62.5 62"
    by (simp add: nearest_even_def)
  moreover have "\<forall>m. nearest_even 62.5 m \<longrightarrow> m = ps ! 0"
    and r: "0 \<le> ps ! 0 \<and> ps ! 0 \<le> 100"
    using b l by (simp_all only: raw) simp_all
  ultimately have "ps ! 0 = 62" by metis
  with w l r show ?thesis by blast
qed

section \<open>The two tables\<close>

text \<open>
  Claim C7.  For every aligned answer the pipeline returns both tables.  The daily table has
  exactly the columns date, maximum and minimum temperature, sunrise, sunset, precipitation
  probability and precipitation sum, in this order, and none of the rain sum, showers sum,
  daylight hours and sunshine hours columns.  The custom analysis table has exactly the five
  columns date, precipitation amount, daylight hours, sunshine hours and label; its date
  column holds the month/day renderings, and the sunshine ratio column is not among them.
  An answer whose series are not aligned is rejected by the frame constructor.
\<close>

theorem table_projections_columns:
  "(aligned r \<longrightarrow>
      (\<exists>w. get_weather_data name r = Inr w \<and>
         columns (daily_table w) =
           [col_date, col_tmax, col_tmin, col_sunrise, col_sunset, col_prob, col_precip] \<and>
         set (columns (daily_table w)) \<inter> {col_rain, col_showers, col_daylight, col_sunshine} = {} \<and>
         columns (custom_analysis_table w) =
           [col_date, col_precip_out, col_daylight, col_sunshine, col_forecast] \<and>
         distinct (columns (custom_analysis_table w)) \<and>
         col_ratio \<notin> set (columns (custom_analysis_table w)) \<and>
         map_of (custom_analysis_table w) col_date = Some (MonthDays (date_range r)))) \<and>
   (\<not> aligned r \<longrightarrow> get_weather_data name r = Inl ValueError)"
proof (intro conjI impI)
  assume a: "aligned r"
  show "\<exists>w. get_weather_data name r = Inr w \<and>
         columns (daily_table w) =
           [col_date, col_tmax, col_tmin, col_sunrise, col_sunset, col_prob, col_precip] \<and>
         set (columns (daily_table w)) \<inter> {col_rain, col_showers, col_daylight, col_sunshine} = {} \<and>
         columns (custom_analysis_table w) =
           [col_date, col_precip_out, col_daylight, col_sunshine, col_forecast] \<and>
         distinct (columns (custom_analysis_table w)) \<and>
         col_ratio \<notin> set (columns (custom_analysis_table w)) \<and>
         map_of (custom_analysis_table w) col_date = Some (MonthDays (date_range r))"
    unfolding get_weather_data_eq[OF a]
    by (simp add: columns_def) (simp add: col_defs)
next
  assume "\<not> aligned r"
  then show "get_weather_data name r = Inl ValueError"
    by (rule get_weather_data_misaligned)
qed

text \<open>The one-day answer.\<close>

theorem table_projections_columns_witness:
  "\<exists>w. get_weather_data [] example_day = Inr w \<and>
         columns (daily_table w) =
           [col_date, col_tmax, col_tmin, col_sunrise, col_sunset, col_prob, col_precip] \<and>
         columns (custom_analysis_table w) =
           [col_date, col_precip_out, col_daylight, col_sunshine, col_forecast]"
  using table_projections_columns[of example_day "[]"] aligned_example_day
  by blast

section \<open>The coordinate table loader\<close>

lemmas loader_txt_defs = DEFAULT_KEY_def txt_kanto_def txt_error_def txt_other_def
  txt_tokyo_to_def txt_tokyo_display_def txt_hokkaido_def txt_hokkaido_display_def

lemma conv_ex:
  "decimal_conv [0x34, 0x30, 0x2E, 0x38, 0x32] = Some (Fin 40.82)"
  "decimal_conv [0x31, 0x34, 0x30, 0x2E, 0x37, 0x34] = Some (Fin 140.74)"
  "decimal_conv [0x32, 0x36, 0x2E, 0x32, 0x31] = Some (Fin 26.21)"
  "decimal_conv [0x31, 0x32, 0x37, 0x2E, 0x36, 0x38] = Some (Fin 127.68)"
  "decimal_conv [0x32, 0x36, 0x2E, 0x32, 0x31, 0x4E] = None"
  by (simp_all add: decimal_conv_def is_digit_def digits_val_def Let_def)

lemma to_float_ex:
  "to_float decimal_conv (lat_cell row_aomori) = Inr (Fin 40.82)"
  "to_float decimal_conv (lon_cell row_aomori) = Inr (Fin 140.74)"
  "to_float decimal_conv (lat_cell row_okinawa) = Inr (Fin 26.21)"
  "to_float decimal_conv (lon_cell row_okinawa) = Inr (Fin 127.68)"
  "to_float decimal_conv (Some [0x32, 0x36, 0x2E, 0x32, 0x31, 0x4E]) = Inl ValueError"
  by (simp_all add: to_float_def row_aomori_def row_okinawa_def conv_ex)

lemma row_entry_ex:
  "row_entry (row_aomori, Fin 40.82, Fin 140.74) = Some entry_aomori"
  "row_entry (row_okinawa, Fin 26.21, Fin 127.68) = Some entry_okinawa"
  "row_entry (row_okinawa\<lparr>capital := None\<rparr>, Fin 26.21, Fin 127.68) = None"
  by (simp_all add: row_aomori_def row_okinawa_def entry_aomori_def entry_okinawa_def
      display_name_of_def region_name_def loader_txt_defs)

lemma row_entry_cells:
  "row_entry (row_aomori, cell_value decimal_conv (lat_cell row_aomori),
      cell_value decimal_conv (lon_cell row_aomori)) = Some entry_aomori"
  "row_entry (row_okinawa, cell_value decimal_conv (lat_cell row_okinawa),
      cell_value decimal_conv (lon_cell row_okinawa)) = Some entry_okinawa"
  "row_entry (row_okinawa\<lparr>capital := None\<rparr>,
      cell_value decimal_conv (lat_cell (row_okinawa\<lparr>capital := None\<rparr>)),
      cell_value decimal_conv (lon_cell (row_okinawa\<lparr>capital := None\<rparr>))) = None"
proof -
  have u: "lat_cell (row_okinawa\<lparr>capital := None\<rparr>) = lat_cell row_okinawa"
    "lon_cell (row_okinawa\<lparr>capital := None\<rparr>) = lon_cell row_okinawa"
    by simp_all
  show "row_entry (row_aomori, cell_value decimal_conv (lat_cell row_aomori),
      cell_value decimal_conv (lon_cell row_aomori)) = Some entry_aomori"
    by (simp only: cell_value_def to_float_ex sum.case row_entry_ex)
  show "row_entry (row_okinawa, cell_value decimal_conv (lat_cell row_okinawa),
      cell_value decimal_conv (lon_cell row_okinawa)) = Some entry_okinawa"
    by (simp only: cell_value_def to_float_ex sum.case row_entry_ex)
  show "row_entry (row_okinawa\<lparr>capital := None\<rparr>,
      cell_value decimal_conv (lat_cell (row_okinawa\<lparr>capital := None\<rparr>)),
      cell_value decimal_conv (lon_cell (row_okinawa\<lparr>capital := None\<rparr>))) = None"
    by (simp only: u cell_value_def to_float_ex sum.case row_entry_ex)
qed

lemma sequence_map_Inr:
  "(\<And>x. x \<in> set xs \<Longrightarrow> f x = Inr (g x)) \<Longrightarrow> sequence (map f xs) = Inr (map g xs)"
  by (induction xs) (simp_all add: bind_def)

lemma sequence_map_Inl:
  "x \<in> set xs \<Longrightarrow> f x = Inl ValueError \<Longrightarrow> (\<And>y e. f y = Inl e \<Longrightarrow> e = ValueError) \<Longrightarrow>
   sequence (map f xs) = Inl ValueError"
proof (induction xs)
  case Nil
  then show ?case by simp
next
  case (Cons a xs)
  show ?case
  proof (cases "f a")
    case (Inl e)
    with Cons.prems(3) show ?thesis by (simp add: bind_def)
  next
    case (Inr v)
    with Cons.prems have "x \<in> set xs" by auto
    with Cons have "sequence (map f xs) = Inl ValueError" by blast
    with Inr show ?thesis by (simp add: bind_def)
  qed
qed

lemma sequence_error:
  "(\<And>y e. f y = Inl e \<Longrightarrow> e = ValueError) \<Longrightarrow> sequence (map f xs) = Inl e \<Longrightarrow> e = ValueError"
  by (induction xs arbitrary: e) (auto simp: bind_def split: sum.splits)

lemma to_float_error: "to_float conv cell = Inl e \<Longrightarrow> e = ValueError"
  by (auto simp: to_float_def split: option.splits)

lemma to_float_convertible:
  "convertible conv cell \<Longrightarrow> to_float conv cell = Inr (cell_value conv cell)"
  by (auto simp: convertible_def cell_value_def split: sum.splits)

lemma not_convertible: "\<not> convertible conv cell \<Longrightarrow> to_float conv cell = Inl ValueError"
  by (auto simp: convertible_def split: sum.splits dest: to_float_error)

lemma zip_zip_map: "zip xs (zip (map g xs) (map h xs)) = map (\<lambda>x. (x, g x, h x)) xs"
  by (induction xs) simp_all

lemma map_filter_map: "List.map_filter f (map g xs) = List.map_filter (\<lambda>x. f (g x)) xs"
  by (simp add: List.map_filter_def filter_map comp_def)

lemma read_rows_ok:
  assumes "list_all (\<lambda>row. convertible conv (lat_cell row) \<and> convertible conv (lon_cell row)) rows"
  shows "read_rows conv rows =
    Inr (List.map_filter
          (\<lambda>row. row_entry (row, cell_value conv (lat_cell row), cell_value conv (lon_cell row)))
          rows)"
proof -
  have a: "sequence (map (\<lambda>row. to_float conv (lat_cell row)) rows)
      = Inr (map (\<lambda>row. cell_value conv (lat_cell row)) rows)"
    using assms by (intro sequence_map_Inr) (simp add: list_all_iff to_float_convertible)
  have b: "sequence (map (\<lambda>row. to_float conv (lon_cell row)) rows)
      = Inr (map (\<lambda>row. cell_value conv (lon_cell row)) rows)"
    using assms by (intro sequence_map_Inr) (simp add: list_all_iff to_float_convertible)
  show ?thesis
    unfolding read_rows_def a b bind_Inr zip_zip_map map_filter_map ..
qed

lemma read_rows_fail:
  assumes "\<not> list_all (\<lambda>row. convertible conv (lat_cell row) \<and> convertible conv (lon_cell row)) rows"
  shows "read_rows conv rows = Inl ValueError"
proof -
  from assms obtain row where row: "row \<in> set rows"
    and "\<not> convertible conv (lat_cell row) \<or> \<not> convertible conv (lon_cell row)"
    by (auto simp: list_all_iff)
  then consider "\<not> convertible conv (lat_cell row)"
    | "\<not> convertible conv (lon_cell row)" by blast
  then show ?thesis
  proof cases
    case 1
    have "sequence (map (\<lambda>row. to_float conv (lat_cell row)) rows) = Inl ValueError"
      by (rule sequence_map_Inl[OF row]) (auto simp: not_convertible 1 dest: to_float_error)
    then show ?thesis by (simp add: read_rows_def bind_def)
  next
    case 2
    have "sequence (map (\<lambda>row. to_float conv (lon_cell row)) rows) = Inl ValueError"
      by (rule sequence_map_Inl[OF row]) (auto simp: not_convertible 2 dest: to_float_error)
    moreover have "\<And>e. sequence (map (\<lambda>row. to_float conv (lat_cell row)) rows) = Inl e
        \<Longrightarrow> e = ValueError"
      by (rule sequence_error[where f = "\<lambda>row. to_float conv (lat_cell row)"])
         (auto dest: to_float_error)
    ultimately show ?thesis by (auto simp: read_rows_def bind_def split: sum.splits)
  qed
qed

lemma row_entry_None:
  "row_entry (row, la, lo) = None \<longleftrightarrow>
     prefecture row = None \<or> capital row = None \<or> la = NaN \<or> lo = NaN"
  by (cases la; cases lo) (auto split: option.splits)

lemma convertible_example:
  "list_all (\<lambda>row. convertible decimal_conv (lat_cell row) \<and> convertible decimal_conv (lon_cell row))
      [row_okinawa, row_okinawa\<lparr>capital := None\<rparr>, row_aomori]"
  by (simp add: convertible_def to_float_ex)

lemma load_example:
  "load_prefecture_coords decimal_conv (Rows [row_okinawa, row_okinawa\<lparr>capital := None\<rparr>, row_aomori])
     = [entry_okinawa, entry_aomori]"
  by (simp only: load_prefecture_coords_def read_rows_ok[OF convertible_example] csv_source.case
      sum.case map_filter_simps row_entry_cells option.case)

text \<open>
  Claim C4, as stated, fails for a row whose coordinate is present but is not a number: the
  conversion of the whole column raises, and the table is replaced by the fallback entry, so
  the complete row of Aomori is lost together with the row whose latitude reads 26.21N.
\<close>

theorem unparseable_cell_replaces_table:
  "load_prefecture_coords decimal_conv
     (Rows [row_aomori, row_okinawa\<lparr>lat_cell := Some [0x32, 0x36, 0x2E, 0x32, 0x31, 0x4E]\<rparr>])
   = [\<lparr>display_name = DEFAULT_KEY, latitude = 35.689, longitude = 139.692,
       region = txt_error\<rparr>]"
proof -
  have "\<not> list_all (\<lambda>row. convertible decimal_conv (lat_cell row) \<and> convertible decimal_conv (lon_cell row))
      [row_aomori, row_okinawa\<lparr>lat_cell := Some [0x32, 0x36, 0x2E, 0x32, 0x31, 0x4E]\<rparr>]"
    by (simp add: convertible_def to_float_ex)
  then have "read_rows decimal_conv
      [row_aomori, row_okinawa\<lparr>lat_cell := Some [0x32, 0x36, 0x2E, 0x32, 0x31, 0x4E]\<rparr>]
      = Inl ValueError"
    by (rule read_rows_fail)
  then show ?thesis
    by (simp add: load_prefecture_coords_def)
qed

text \<open>
  Claim C4, amended.  When every latitude and longitude cell of the file is missing or is
  read as a number (after the ring marks are removed), the table holds, in file order, the
  entries of exactly the rows that have a prefecture, a capital and a latitude and a
  longitude other than NaN: every other row is dropped on its own, a missing coordinate cell
  counting as NaN.  When some coordinate cell is present and is not read as a number, the whole
  table is replaced by the single fallback entry.
\<close>

theorem load_rows_recovery:
  "(list_all (\<lambda>row. convertible conv (lat_cell row) \<and> convertible conv (lon_cell row)) rows \<longrightarrow>
      load_prefecture_coords conv (Rows rows) =
        List.map_filter
          (\<lambda>row. row_entry (row, cell_value conv (lat_cell row), cell_value conv (lon_cell row)))
          rows) \<and>
   (\<not> list_all (\<lambda>row. convertible conv (lat_cell row) \<and> convertible conv (lon_cell row)) rows \<longrightarrow>
      load_prefecture_coords conv (Rows rows) = [fallback_entry]) \<and>
   (row_entry (row, la, lo) = None \<longleftrightarrow>
      prefecture row = None \<or> capital row = None \<or> la = NaN \<or> lo = NaN) \<and>
   cell_value conv None = NaN \<and> convertible conv None"
proof (intro conjI impI)
  assume "list_all (\<lambda>row. convertible conv (lat_cell row) \<and> convertible conv (lon_cell row)) rows"
  then show "load_prefecture_coords conv (Rows rows) =
        List.map_filter
          (\<lambda>row. row_entry (row, cell_value conv (lat_cell row), cell_value conv (lon_cell row)))
          rows"
    by (simp add: load_prefecture_coords_def read_rows_ok)
next
  assume "\<not> list_all (\<lambda>row. convertible conv (lat_cell row) \<and> convertible conv (lon_cell row)) rows"
  then have "read_rows conv rows = Inl ValueError"
    by (rule read_rows_fail)
  then show "load_prefecture_coords conv (Rows rows) = [fallback_entry]"
    by (simp add: load_prefecture_coords_def fallback_entry_def)
next
  show "row_entry (row, la, lo) = None \<longleftrightarrow>
      prefecture row = None \<or> capital row = None \<or> la = NaN \<or> lo = NaN"
    by (rule row_entry_None)
next
  show "cell_value conv None = NaN" by (simp add: cell_value_def to_float_def)
  show "convertible conv None" by (simp add: convertible_def to_float_def)
qed

text \<open>Okinawa, Okinawa without its capital, and Aomori: the middle row alone is dropped.\<close>

theorem load_rows_recovery_witness:
  "load_prefecture_coords decimal_conv
     (Rows [row_okinawa, row_okinawa\<lparr>capital := None\<rparr>, row_aomori])
   = [entry_okinawa, entry_aomori]"
proof -
  let ?rows = "[row_okinawa, row_okinawa\<lparr>capital := None\<rparr>, row_aomori]"
  from load_rows_recovery[of decimal_conv ?rows] convertible_example
  have "load_prefecture_coords decimal_conv (Rows ?rows) =
        List.map_filter
          (\<lambda>row. row_entry (row, cell_value decimal_conv (lat_cell row), cell_value decimal_conv (lon_cell row)))
          ?rows"
    by blast
  then show ?thesis
    by (simp only: map_filter_simps row_entry_cells option.case)
qed

section \<open>The selection of the request handler\<close>

lemma index_default:
  assumes t: "(if T = [] then load_prefecture_coords conv src else T) = e # es"
    and k: "request_method req = GET \<or> prefecture_select req \<notin> Some ` display_name ` set (e # es)"
  shows "index conv src T req =
     (e # es, Rendered \<lparr>selected_data = e,
                        prefecture_data = sort_key (\<lambda>x. - latitude x) (e # es),
                        selected_location = display_name e\<rparr>)"
proof -
  have key: "(if request_method req = POST
              then (case prefecture_select req of
                      None \<Rightarrow> display_name e
                    | Some k \<Rightarrow> if k \<notin> set (map display_name (e # es)) then display_name e else k)
              else display_name e) = display_name e"
    using k by (cases "request_method req") (auto split: option.splits)
  show ?thesis
    unfolding index_def t Let_def list.case key
    by simp
qed



lemma names_example:
  "display_name entry_okinawa = [0x6C96, 0x7E04, 0x770C, 0xFF08, 0x90A3, 0x8987, 0x5E02, 0xFF09]"
  "display_name entry_aomori = [0x9752, 0x68EE, 0x770C, 0xFF08, 0x9752, 0x68EE, 0x5E02, 0xFF09]"
  "latitude entry_okinawa = 26.21" "latitude entry_aomori = 40.82"
  by (simp_all add: entry_okinawa_def entry_aomori_def)

lemma sorted_example:
  "sort_key (\<lambda>x. - latitude x) [entry_okinawa, entry_aomori] = [entry_aomori, entry_okinawa]"
  by (simp add: names_example)




text \<open>
  Claim C10.  Whenever the handler gets past its guard, the entry selected for a request that
  is not a POST, or whose key is absent or unknown, is the first entry of the table in load
  order.  The list handed to the page is a sorted rearrangement of the table (descending
  latitude), while the table the handler leaves behind is the table in load order, so sorting
  does not change the default.
\<close>

theorem default_is_first_loaded:
  assumes "(if T = [] then load_prefecture_coords conv src else T) = e # es"
    and "request_method req = GET \<or> prefecture_select req \<notin> Some ` display_name ` set (e # es)"
  shows "\<exists>pg. index conv src T req = (e # es, Rendered pg) \<and>
           selected_data pg = e \<and> selected_location pg = display_name e \<and>
           prefecture_data pg = sort_key (\<lambda>x. - latitude x) (e # es) \<and>
           set (prefecture_data pg) = set (e # es) \<and>
           length (prefecture_data pg) = length (e # es) \<and>
           sorted (map (\<lambda>x. - latitude x) (prefecture_data pg))"
proof -
  let ?pg = "\<lparr>selected_data = e,
            prefecture_data = sort_key (\<lambda>x. - latitude x) (e # es),
            selected_location = display_name e\<rparr>"
  have "index conv src T req = (e # es, Rendered ?pg)"
    using assms by (rule index_default)
  moreover have "set (prefecture_data ?pg) = set (e # es)"
    "length (prefecture_data ?pg) = length (e # es)"
    "sorted (map (\<lambda>x. - latitude x) (prefecture_data ?pg))"
    by (simp_all only: page.simps set_sort length_sort sorted_sort_key)
  ultimately show ?thesis
    by (intro exI[of _ ?pg]) simp
qed

text \<open>
  The table is loaded by the handler from a file listing Okinawa before Aomori: the page lists
  Aomori first, the selected default is Okinawa.
\<close>

theorem default_is_first_loaded_witness:
  "\<exists>pg. index decimal_conv (Rows [row_okinawa, row_okinawa\<lparr>capital := None\<rparr>, row_aomori]) []
           \<lparr>request_method = GET, prefecture_select = None\<rparr>
         = ([entry_okinawa, entry_aomori], Rendered pg) \<and>
        selected_data pg = entry_okinawa \<and>
        prefecture_data pg = [entry_aomori, entry_okinawa]"
proof -
  let ?src = "Rows [row_okinawa, row_okinawa\<lparr>capital := None\<rparr>, row_aomori]"
  let ?req = "\<lparr>request_method = GET, prefecture_select = None\<rparr>"
  have t: "(if [] = [] then load_prefecture_coords decimal_conv ?src else [])
      = entry_okinawa # [entry_aomori]"
    by (simp add: load_example)
  have k: "request_method ?req = GET \<or>
      prefecture_select ?req \<notin> Some ` display_name ` set (entry_okinawa # [entry_aomori])"
    by simp
  from default_is_first_loaded[OF t k]
  obtain pg where "index decimal_conv ?src [] ?req = ([entry_okinawa, entry_aomori], Rendered pg)"
    "selected_data pg = entry_okinawa"
    "prefecture_data pg = sort_key (\<lambda>x. - latitude x) [entry_okinawa, entry_aomori]"
    by blast
  then show ?thesis
    by (auto simp only: sorted_example)
qed

end
